theory Spec2Isabelle
  imports Main "HOL-Library.Word"
begin

section \<open>Python values and exceptions\<close>

text \<open>
  The payload values of \<^verbatim>\<open>udsoncan/base_service.py\<close> are
  \<^verbatim>\<open>UdsPayloadTypes = Union[int, float, bytes, str]\<close>.  Python floats are kept
  abstract: the type variable \<open>'f\<close> is the carrier and every operation on it is a
  field of \<open>float_ops\<close>, so no theorem below depends on how IEEE arithmetic rounds.
\<close>

type_synonym byte = "8 word"

datatype 'f pyval = PInt int | PFloat 'f | PBytes "byte list" | PStr string

text \<open>
  Exceptions as values.  \<open>MissingDataError\<close> stands for the two \<^verbatim>\<open>ValueError\<close>s that
  \<^verbatim>\<open>ServiceData.unpack\<close> raises itself, \<open>TranscodeError\<close> for \<^verbatim>\<open>struct.error\<close>
  (the source aliases it under that name), \<open>FormatError\<close> for the \<^verbatim>\<open>ValueError\<close> of
  \<^verbatim>\<open>str.format\<close> on a stray brace, and \<open>UnicodeEncodeError\<close> for the exception of
  that name (a subclass of \<^verbatim>\<open>ValueError\<close>) that \<^verbatim>\<open>struct\<close> raises when it encodes a
  format string with a character outside ASCII.  \<open>Unmodelled\<close> marks input outside the
  modelled fragment of \<^verbatim>\<open>struct\<close> and \<^verbatim>\<open>str.format\<close>; it never stands for a Python
  result.
\<close>

datatype error =
    MissingDataError
  | TranscodeError
  | TypeError
  | OverflowError
  | ZeroDivisionError
  | IndexError
  | AttributeError
  | FormatError
  | UnicodeEncodeError
  | Unmodelled

record 'f float_ops =
  of_int_f :: "int \<Rightarrow> 'f option"
  mul_f :: "'f \<Rightarrow> 'f \<Rightarrow> 'f"
  recip_f :: "'f \<Rightarrow> 'f option"
  eq_f :: "'f \<Rightarrow> 'f \<Rightarrow> bool"
  is_f :: "'f \<Rightarrow> 'f \<Rightarrow> bool"
  eq_int_f :: "'f \<Rightarrow> int \<Rightarrow> bool"
  enc_f :: "char \<Rightarrow> 'f \<Rightarrow> nat option"
  dec_f :: "char \<Rightarrow> nat \<Rightarrow> 'f"

text \<open>
  \<open>of_int_f\<close> is \<^verbatim>\<open>float(i)\<close> (\<open>None\<close>: the integer is too large), \<open>recip_f\<close> is
  \<^verbatim>\<open>1.0 / x\<close> (\<open>None\<close>: division by zero), \<open>eq_f\<close> and \<open>eq_int_f\<close> are \<^verbatim>\<open>==\<close>
  between two floats and between a float and an integer, \<open>is_f x y\<close> is \<^verbatim>\<open>x is y\<close>
  (the two floats are one object; Python leaves open when two float results are), 
  \<open>enc_f c x\<close> is the IEEE bit pattern of \<open>x\<close> in the width of the format character
  \<open>c\<close>, read as an unsigned number (\<open>None\<close>: too large for that width), and \<open>dec_f\<close>
  decodes such a pattern.
\<close>

text \<open>\<^verbatim>\<open>a * b\<close> on payload values.\<close>

fun py_mul :: "'f float_ops \<Rightarrow> 'f pyval \<Rightarrow> 'f pyval \<Rightarrow> error + 'f pyval" where
  "py_mul ops (PInt a) (PInt b) = Inr (PInt (a * b))"
| "py_mul ops (PInt a) (PFloat y) =
     (case of_int_f ops a of None \<Rightarrow> Inl OverflowError | Some x \<Rightarrow> Inr (PFloat (mul_f ops x y)))"
| "py_mul ops (PFloat x) (PInt b) =
     (case of_int_f ops b of None \<Rightarrow> Inl OverflowError | Some y \<Rightarrow> Inr (PFloat (mul_f ops x y)))"
| "py_mul ops (PFloat x) (PFloat y) = Inr (PFloat (mul_f ops x y))"
| "py_mul ops (PBytes s) (PInt n) = Inr (PBytes (concat (replicate (nat n) s)))"
| "py_mul ops (PInt n) (PBytes s) = Inr (PBytes (concat (replicate (nat n) s)))"
| "py_mul ops (PStr s) (PInt n) = Inr (PStr (concat (replicate (nat n) s)))"
| "py_mul ops (PInt n) (PStr s) = Inr (PStr (concat (replicate (nat n) s)))"
| "py_mul ops _ _ = Inl TypeError"

text \<open>\<^verbatim>\<open>a == b\<close> on payload values.\<close>

fun py_eq :: "'f float_ops \<Rightarrow> 'f pyval \<Rightarrow> 'f pyval \<Rightarrow> bool" where
  "py_eq ops (PInt a) (PInt b) = (a = b)"
| "py_eq ops (PInt a) (PFloat y) = eq_int_f ops y a"
| "py_eq ops (PFloat x) (PInt b) = eq_int_f ops x b"
| "py_eq ops (PFloat x) (PFloat y) = eq_f ops x y"
| "py_eq ops (PBytes s) (PBytes t) = (s = t)"
| "py_eq ops (PStr s) (PStr t) = (s = t)"
| "py_eq ops _ _ = False"

text \<open>
  \<^verbatim>\<open>PyObject_RichCompareBool(v, w, Py_EQ)\<close>, by which a tuple compares its elements:
  true when the two are one object, and \<^verbatim>\<open>v == w\<close> otherwise.  An integer, a byte
  string or a text that is one object with another is \<^verbatim>\<open>==\<close> to it, so that identity
  changes the result for two floats only, where a NaN is not \<^verbatim>\<open>==\<close> to itself.
\<close>

fun rich_compare_bool :: "'f float_ops \<Rightarrow> 'f pyval \<Rightarrow> 'f pyval \<Rightarrow> bool" where
  "rich_compare_bool ops (PFloat x) (PFloat y) = (is_f ops x y \<or> eq_f ops x y)"
| "rich_compare_bool ops v w = py_eq ops v w"

text \<open>\<^verbatim>\<open>len(v)\<close>: integers and floats have no length.\<close>

fun py_len :: "'f pyval \<Rightarrow> error + nat" where
  "py_len (PBytes s) = Inr (length s)"
| "py_len (PStr s) = Inr (length s)"
| "py_len _ = Inl TypeError"

text \<open>Running a sequence of computations left to right, stopping at the first exception.\<close>

fun sequence_err :: "(error + 'a) list \<Rightarrow> error + 'a list" where
  "sequence_err [] = Inr []"
| "sequence_err (x # xs) =
     (case x of Inl e \<Rightarrow> Inl e
      | Inr v \<Rightarrow> (case sequence_err xs of Inl e \<Rightarrow> Inl e | Inr vs \<Rightarrow> Inr (v # vs)))"

section \<open>Python string operations used on format strings\<close>

text \<open>\<^verbatim>\<open>"{}" in s\<close>.\<close>

fun has_placeholder :: "string \<Rightarrow> bool" where
  "has_placeholder (c # d # cs) = ((c = CHR ''{'' \<and> d = CHR ''}'') \<or> has_placeholder (d # cs))"
| "has_placeholder _ = False"

text \<open>\<^verbatim>\<open>s.split("{}")\<close>: the list is never empty.\<close>

fun str_split :: "string \<Rightarrow> string list" where
  "str_split (c # d # cs) =
     (if c = CHR ''{'' \<and> d = CHR ''}'' then [] # str_split cs
      else (case str_split (d # cs) of [] \<Rightarrow> [[c]] | p # ps \<Rightarrow> (c # p) # ps))"
| "str_split cs = [cs]"

text \<open>\<^verbatim>\<open>s.replace("{}", "")\<close>.\<close>

fun str_remove :: "string \<Rightarrow> string" where
  "str_remove (c # d # cs) =
     (if c = CHR ''{'' \<and> d = CHR ''}'' then str_remove cs else c # str_remove (d # cs))"
| "str_remove cs = cs"

text \<open>\<^verbatim>\<open>str(n)\<close> for an integer.\<close>

definition digit_char :: "nat \<Rightarrow> char" where
  "digit_char d = ''0123456789'' ! d"

fun str_nat :: "nat \<Rightarrow> string" where
  "str_nat n = (if n < 10 then [digit_char n] else str_nat (n div 10) @ [digit_char (n mod 10)])"

definition str_int :: "int \<Rightarrow> string" where
  "str_int i = (if i < 0 then CHR ''-'' # str_nat (nat (- i)) else str_nat (nat i))"

text \<open>
  \<^verbatim>\<open>s.format(*args)\<close> with the arguments already turned into text.  Modelled: the
  automatic replacement field \<^verbatim>\<open>{}\<close> and the escapes \<^verbatim>\<open>{{\<close> and \<^verbatim>\<open>}}\<close>; a lone
  closing brace is the \<^verbatim>\<open>ValueError\<close> of Python, a missing argument its
  \<^verbatim>\<open>IndexError\<close>, surplus arguments are ignored.  Any other replacement field is
  outside the model.
\<close>

fun str_format :: "string \<Rightarrow> string list \<Rightarrow> error + string" where
  "str_format [] args = Inr []"
| "str_format (c # cs) args =
     (if c = CHR ''{'' then
        (case cs of
           [] \<Rightarrow> Inl FormatError
         | d # ds \<Rightarrow>
             if d = CHR ''{'' then
               (case str_format ds args of Inl e \<Rightarrow> Inl e | Inr r \<Rightarrow> Inr (CHR ''{'' # r))
             else if d = CHR ''}'' then
               (case args of
                  [] \<Rightarrow> Inl IndexError
                | a # as \<Rightarrow> (case str_format ds as of Inl e \<Rightarrow> Inl e | Inr r \<Rightarrow> Inr (a @ r)))
             else Inl Unmodelled)
      else if c = CHR ''}'' then
        (case cs of
           [] \<Rightarrow> Inl FormatError
         | d # ds \<Rightarrow>
             if d = CHR ''}'' then
               (case str_format ds args of Inl e \<Rightarrow> Inl e | Inr r \<Rightarrow> Inr (CHR ''}'' # r))
             else Inl FormatError)
      else (case str_format cs args of Inl e \<Rightarrow> Inl e | Inr r \<Rightarrow> Inr (c # r)))"

text \<open>\<^verbatim>\<open>data[i:j]\<close> with Python's treatment of negative and oversized indices.\<close>

definition py_slice :: "'a list \<Rightarrow> int \<Rightarrow> int \<Rightarrow> 'a list" where
  "py_slice xs i j =
     (let n = int (length xs);
          i' = (if i < 0 then max 0 (i + n) else min i n);
          j' = (if j < 0 then max 0 (j + n) else min j n)
      in take (nat (j' - i')) (drop (nat i') xs))"

text \<open>\<^verbatim>\<open>xs.insert(position, x)\<close> for a position that is not negative.\<close>

definition list_insert :: "nat \<Rightarrow> 'a \<Rightarrow> 'a list \<Rightarrow> 'a list" where
  "list_insert position x xs = take position xs @ x # drop position xs"

text \<open>\<^verbatim>\<open>xs[i]\<close> for an index that is not negative.\<close>

definition list_get :: "'a list \<Rightarrow> nat \<Rightarrow> error + 'a" where
  "list_get xs i = (if i < length xs then Inr (xs ! i) else Inl IndexError)"

section \<open>The fragment of Python's \<^verbatim>\<open>struct\<close> module that the codec uses\<close>

text \<open>
  Every format string of the source starts with \<^verbatim>\<open>">"\<close> (big-endian, standard
  sizes, no padding).  A format given as text is encoded to ASCII before anything else,
  which fails with \<^verbatim>\<open>UnicodeEncodeError\<close> when one of its characters is not ASCII.
  Modelled format characters: the integers
  \<^verbatim>\<open>b B h H i I l L q Q\<close>, the floats \<^verbatim>\<open>e f d\<close> and the byte block \<^verbatim>\<open>s\<close>, each
  with an optional decimal count.  \<^verbatim>\<open>x c ? p\<close> are valid for Python and outside the
  model; every other character is a \<^verbatim>\<open>struct.error\<close>.
\<close>

datatype item = ItInt bool nat | ItFloat char nat | ItBytes nat

definition is_digit :: "char \<Rightarrow> bool" where
  "is_digit c = (c \<in> set ''0123456789'')"

definition digit_val :: "char \<Rightarrow> nat" where
  "digit_val c = of_char c - 48"

definition is_space :: "char \<Rightarrow> bool" where
  "is_space c = (of_char c \<in> {9, 10, 11, 12, 13, 32 :: nat})"

text \<open>The items one format character with its count stands for.\<close>

definition code_items :: "nat option \<Rightarrow> char \<Rightarrow> error + item list" where
  "code_items cnt c =
     (let k = (case cnt of None \<Rightarrow> 1 | Some n \<Rightarrow> n) in
      if c = CHR ''b'' then Inr (replicate k (ItInt True 1))
      else if c = CHR ''B'' then Inr (replicate k (ItInt False 1))
      else if c = CHR ''h'' then Inr (replicate k (ItInt True 2))
      else if c = CHR ''H'' then Inr (replicate k (ItInt False 2))
      else if c = CHR ''i'' \<or> c = CHR ''l'' then Inr (replicate k (ItInt True 4))
      else if c = CHR ''I'' \<or> c = CHR ''L'' then Inr (replicate k (ItInt False 4))
      else if c = CHR ''q'' then Inr (replicate k (ItInt True 8))
      else if c = CHR ''Q'' then Inr (replicate k (ItInt False 8))
      else if c = CHR ''e'' then Inr (replicate k (ItFloat c 2))
      else if c = CHR ''f'' then Inr (replicate k (ItFloat c 4))
      else if c = CHR ''d'' then Inr (replicate k (ItFloat c 8))
      else if c = CHR ''s'' then Inr [ItBytes k]
      else if c \<in> set ''xc?p'' then Inl Unmodelled
      else Inl TranscodeError)"

text \<open>
  The scan of the format after its byte-order character: white space between items is
  skipped, digits accumulate into a count, and a count at the end of the string has no
  format character to apply to.
\<close>

fun parse_items :: "nat option \<Rightarrow> string \<Rightarrow> error + item list" where
  "parse_items None [] = Inr []"
| "parse_items (Some n) [] = Inl TranscodeError"
| "parse_items cnt (c # cs) =
     (if is_digit c then
        parse_items (Some (10 * (case cnt of None \<Rightarrow> 0 | Some n \<Rightarrow> n) + digit_val c)) cs
      else if cnt = None \<and> is_space c then parse_items None cs
      else
        (case code_items cnt c of
           Inl e \<Rightarrow> Inl e
         | Inr its \<Rightarrow> (case parse_items None cs of Inl e \<Rightarrow> Inl e | Inr rest \<Rightarrow> Inr (its @ rest))))"

definition is_ascii :: "char \<Rightarrow> bool" where
  "is_ascii c = ((of_char c :: nat) < 128)"

definition struct_items :: "string \<Rightarrow> error + item list" where
  "struct_items fmt =
     (if \<not> list_all is_ascii fmt then Inl UnicodeEncodeError
      else
        (case fmt of
           [] \<Rightarrow> Inl Unmodelled
         | c # cs \<Rightarrow> if c = CHR ''>'' then parse_items None cs else Inl Unmodelled))"

fun item_size :: "item \<Rightarrow> nat" where
  "item_size (ItInt sg n) = n"
| "item_size (ItFloat c n) = n"
| "item_size (ItBytes k) = k"

text \<open>\<^verbatim>\<open>struct.calcsize(fmt)\<close>.\<close>

definition struct_calcsize :: "string \<Rightarrow> error + nat" where
  "struct_calcsize fmt =
     (case struct_items fmt of Inl e \<Rightarrow> Inl e | Inr its \<Rightarrow> Inr (sum_list (map item_size its)))"

text \<open>Big-endian bytes of an integer (two's complement when negative) and back.\<close>

fun be_bytes :: "nat \<Rightarrow> int \<Rightarrow> byte list" where
  "be_bytes 0 v = []"
| "be_bytes (Suc n) v = be_bytes n (v div 256) @ [word_of_int v]"

definition be_nat :: "byte list \<Rightarrow> nat" where
  "be_nat bs = foldl (\<lambda>acc b. acc * 256 + unat b) 0 bs"

definition be_int :: "bool \<Rightarrow> byte list \<Rightarrow> int" where
  "be_int sg bs =
     (let u = int (be_nat bs) in
      if sg \<and> 2 ^ (8 * length bs - 1) \<le> u then u - 2 ^ (8 * length bs) else u)"

definition int_in_range :: "bool \<Rightarrow> nat \<Rightarrow> int \<Rightarrow> bool" where
  "int_in_range sg n v =
     (if sg then - (2 ^ (8 * n - 1)) \<le> v \<and> v < 2 ^ (8 * n - 1) else 0 \<le> v \<and> v < 2 ^ (8 * n))"

text \<open>
  Packing one value: an integer item refuses whatever is not an integer in range, a
  float item converts an integer first, a byte block is cut or padded with zero bytes
  to its declared size.
\<close>

fun pack_item :: "'f float_ops \<Rightarrow> item \<Rightarrow> 'f pyval \<Rightarrow> error + byte list" where
  "pack_item ops (ItInt sg n) (PInt v) =
     (if int_in_range sg n v then Inr (be_bytes n v) else Inl TranscodeError)"
| "pack_item ops (ItInt sg n) _ = Inl TranscodeError"
| "pack_item ops (ItFloat c n) (PFloat x) =
     (case enc_f ops c x of None \<Rightarrow> Inl OverflowError | Some bits \<Rightarrow> Inr (be_bytes n (int bits)))"
| "pack_item ops (ItFloat c n) (PInt v) =
     (case of_int_f ops v of
        None \<Rightarrow> Inl TranscodeError
      | Some x \<Rightarrow>
          (case enc_f ops c x of None \<Rightarrow> Inl OverflowError | Some bits \<Rightarrow> Inr (be_bytes n (int bits))))"
| "pack_item ops (ItFloat c n) _ = Inl TranscodeError"
| "pack_item ops (ItBytes k) (PBytes s) = Inr (take k s @ replicate (k - length s) 0)"
| "pack_item ops (ItBytes k) _ = Inl TranscodeError"

text \<open>\<^verbatim>\<open>struct.pack(fmt, *args)\<close>: the number of arguments is checked first.\<close>

definition struct_pack :: "'f float_ops \<Rightarrow> string \<Rightarrow> 'f pyval list \<Rightarrow> error + byte list" where
  "struct_pack ops fmt args =
     (case struct_items fmt of
        Inl e \<Rightarrow> Inl e
      | Inr its \<Rightarrow>
          if length its \<noteq> length args then Inl TranscodeError
          else (case sequence_err (map (\<lambda>(it, a). pack_item ops it a) (zip its args)) of
                  Inl e \<Rightarrow> Inl e
                | Inr chunks \<Rightarrow> Inr (concat chunks)))"

fun unpack_item :: "'f float_ops \<Rightarrow> item \<Rightarrow> byte list \<Rightarrow> 'f pyval" where
  "unpack_item ops (ItInt sg n) bs = PInt (be_int sg bs)"
| "unpack_item ops (ItFloat c n) bs = PFloat (dec_f ops c (be_nat bs))"
| "unpack_item ops (ItBytes k) bs = PBytes bs"

fun unpack_items :: "'f float_ops \<Rightarrow> item list \<Rightarrow> byte list \<Rightarrow> 'f pyval list" where
  "unpack_items ops [] data = []"
| "unpack_items ops (it # its) data =
     unpack_item ops it (take (item_size it) data) # unpack_items ops its (drop (item_size it) data)"

text \<open>\<^verbatim>\<open>struct.unpack(fmt, data)\<close>: the buffer must have exactly the size of the format.\<close>

definition struct_unpack :: "'f float_ops \<Rightarrow> string \<Rightarrow> byte list \<Rightarrow> error + 'f pyval list" where
  "struct_unpack ops fmt data =
     (case struct_items fmt of
        Inl e \<Rightarrow> Inl e
      | Inr its \<Rightarrow>
          if length data \<noteq> sum_list (map item_size its) then Inl TranscodeError
          else Inr (unpack_items ops its data))"

section \<open>\<^verbatim>\<open>UdsField\<close>\<close>

definition NO_SUBFUNCTION :: int where
  "NO_SUBFUNCTION = 0"

record 'f uds_field =
  name :: string
  default_value :: "'f pyval"
  fmt :: string
  subfunctions :: "int set"
  resolution :: "'f pyval"
  scale_factor :: "'f pyval"
  compare :: bool

text \<open>
  \<^verbatim>\<open>UdsField.__init__\<close>: \<^verbatim>\<open>subfunctions\<close> is one integer or an iterable of integers,
  and \<^verbatim>\<open>scale_factor = 1 if resolution == 1 else 1.0 / self.resolution\<close>.  The name
  and the default are what the dataclass machinery stores in the field.  Of the options
  of \<^verbatim>\<open>dataclasses.Field\<close> that \<^verbatim>\<open>uds_field\<close> passes on, \<open>compare\<close> (true unless the
  declaration says otherwise) decides whether the generated \<^verbatim>\<open>__eq__\<close> looks at the
  field; the others are kept at the defaults of \<^verbatim>\<open>dataclasses.field\<close>.
\<close>

definition UdsField_init ::
  "'f float_ops \<Rightarrow> string \<Rightarrow> 'f pyval \<Rightarrow> string \<Rightarrow> int + int list \<Rightarrow> 'f pyval \<Rightarrow> bool
     \<Rightarrow> error + 'f uds_field"
where
  "UdsField_init ops nm dflt f sfs res cmp =
     (let sfset = (case sfs of Inl n \<Rightarrow> {n} | Inr ns \<Rightarrow> set ns);
          mk = (\<lambda>sc. \<lparr>name = nm, default_value = dflt, fmt = f, subfunctions = sfset,
                      resolution = res, scale_factor = sc, compare = cmp\<rparr>)
      in if py_eq ops res (PInt 1) then Inr (mk (PInt 1))
         else
           (case res of
              PInt r \<Rightarrow>
                (case of_int_f ops r of
                   None \<Rightarrow> Inl OverflowError
                 | Some x \<Rightarrow>
                     (case recip_f ops x of None \<Rightarrow> Inl ZeroDivisionError | Some sc \<Rightarrow> Inr (mk (PFloat sc))))
            | PFloat x \<Rightarrow>
                (case recip_f ops x of None \<Rightarrow> Inl ZeroDivisionError | Some sc \<Rightarrow> Inr (mk (PFloat sc)))
            | _ \<Rightarrow> Inl TypeError))"

definition has_variable_length :: "'f uds_field \<Rightarrow> bool" where
  "has_variable_length f = has_placeholder (fmt f)"

definition supports_subfonction :: "'f uds_field \<Rightarrow> int \<Rightarrow> bool" where
  "supports_subfonction f subfunction = (subfunctions f = {} \<or> subfunction \<in> subfunctions f)"

section \<open>\<^verbatim>\<open>ServiceData\<close>\<close>

text \<open>
  A record type is a class object.  The model records of it: its identity (two class
  objects are the same object exactly when all that is recorded of them, the identity
  included, is the same), its name, the identities of its proper base classes, the
  dataclass fields that the class adds to the field \<^verbatim>\<open>subfunction\<close> of \<^verbatim>\<open>ServiceData\<close>
  in declaration order, and whether \<^verbatim>\<open>==\<close> on its instances runs an \<^verbatim>\<open>__eq__\<close> that
  \<^verbatim>\<open>@dataclass\<close> generated.  The decorator adds that method to every class it is
  applied to unless the body of the class defines \<^verbatim>\<open>__eq__\<close> itself or the decorator
  is told \<^verbatim>\<open>eq=False\<close>: \<^verbatim>\<open>ServiceData\<close> keeps the method it defines,
  \<^verbatim>\<open>EmptyServiceData\<close> (not decorated) inherits it, a subclass declared under
  \<^verbatim>\<open>@dataclass\<close>, as every record type with fields in the repository is, gets a
  generated one, and a subclass that is not decorated inherits what its base has.  An
  instance holds its class, its subfunction and the values of its other attributes.
\<close>

datatype 'f dc_field = PlainField string "'f pyval" bool | UdsField "'f uds_field"

record 'f service_cls =
  cls_id :: nat
  cls_name :: string
  bases :: "nat list"
  dataclass_eq :: bool
  declared_fields :: "'f dc_field list"

record 'f service_data =
  cls :: "'f service_cls"
  subfunction :: int
  attrs :: "string \<Rightarrow> 'f pyval option"

definition ServiceData :: "'f service_cls" where
  "ServiceData =
     \<lparr>cls_id = 0, cls_name = ''ServiceData'', bases = [], dataclass_eq = False,
      declared_fields = []\<rparr>"

definition EmptyServiceData :: "'f service_cls" where
  "EmptyServiceData =
     \<lparr>cls_id = 1, cls_name = ''EmptyServiceData'',
      bases = [cls_id (ServiceData :: 'f service_cls)], dataclass_eq = False,
      declared_fields = []\<rparr>"

text \<open>
  A class statement under \<^verbatim>\<open>@dataclass\<close> that derives from \<^verbatim>\<open>ServiceData\<close>; \<open>i\<close> is
  the identity of the new class object.
\<close>

definition dataclass :: "nat \<Rightarrow> string \<Rightarrow> 'f dc_field list \<Rightarrow> 'f service_cls" where
  "dataclass i n fs =
     \<lparr>cls_id = i, cls_name = n, bases = [cls_id (ServiceData :: 'f service_cls)],
      dataclass_eq = True, declared_fields = fs\<rparr>"

text \<open>The name, the default and the \<open>compare\<close> option of a field.\<close>

fun field_default :: "'f dc_field \<Rightarrow> string \<times> 'f pyval" where
  "field_default (PlainField n d cmp) = (n, d)"
| "field_default (UdsField f) = (name f, default_value f)"

fun field_compare :: "'f dc_field \<Rightarrow> bool" where
  "field_compare (PlainField n d cmp) = cmp"
| "field_compare (UdsField f) = compare f"

definition is_subfunction_field :: "'f dc_field \<Rightarrow> bool" where
  "is_subfunction_field f = (fst (field_default f) = ''subfunction'')"

text \<open>
  \<^verbatim>\<open>dataclasses.fields(cls)\<close>: the field \<^verbatim>\<open>subfunction\<close> that \<^verbatim>\<open>ServiceData\<close> declares
  comes first, followed by the fields of the class.  A class that declares a field
  \<^verbatim>\<open>subfunction\<close> of its own replaces the inherited one, which keeps its place.
\<close>

definition dc_fields :: "'f service_cls \<Rightarrow> 'f dc_field list" where
  "dc_fields c =
     (case find is_subfunction_field (declared_fields c) of
        None \<Rightarrow> PlainField ''subfunction'' (PInt NO_SUBFUNCTION) True # declared_fields c
      | Some f \<Rightarrow> f # filter (\<lambda>g. \<not> is_subfunction_field g) (declared_fields c))"

fun iter_fields :: "'f dc_field list \<Rightarrow> int \<Rightarrow> 'f uds_field list" where
  "iter_fields [] sf = []"
| "iter_fields (PlainField n d cmp # fs) sf = iter_fields fs sf"
| "iter_fields (UdsField f # fs) sf =
     (if supports_subfonction f sf then f # iter_fields fs sf else iter_fields fs sf)"

definition iter_parameter_fields :: "'f service_cls \<Rightarrow> int \<Rightarrow> 'f uds_field list" where
  "iter_parameter_fields c sf = iter_fields (dc_fields c) sf"

definition iter_parameter_names :: "'f service_cls \<Rightarrow> int \<Rightarrow> string list" where
  "iter_parameter_names c sf = map name (iter_parameter_fields c sf)"

definition ENDIANNESS :: string where
  "ENDIANNESS = ''>''"

definition get_payload_fmt :: "'f service_cls \<Rightarrow> int \<Rightarrow> string" where
  "get_payload_fmt c sf = ENDIANNESS @ concat (map fmt (iter_parameter_fields c sf))"

definition iter_payload_fmt :: "'f service_cls \<Rightarrow> int \<Rightarrow> string list" where
  "iter_payload_fmt c sf =
     (let joined_fmt = concat (map fmt (iter_parameter_fields c sf));
          static_chunks = str_split joined_fmt
      in case static_chunks of
           [] \<Rightarrow> []
         | first # others \<Rightarrow> (ENDIANNESS @ first) # map (\<lambda>chunk. ENDIANNESS @ ''{}'' @ chunk) others)"

definition get_parameter_names :: "'f service_cls \<Rightarrow> int \<Rightarrow> string list" where
  "get_parameter_names c sf = iter_parameter_names c sf"

definition get_variadic_parameter_names :: "'f service_cls \<Rightarrow> int \<Rightarrow> string list" where
  "get_variadic_parameter_names c sf =
     map name (filter has_variable_length (iter_parameter_fields c sf))"

definition get_parameter_resolutions :: "'f service_cls \<Rightarrow> int \<Rightarrow> 'f pyval list" where
  "get_parameter_resolutions c sf = map resolution (iter_parameter_fields c sf)"

definition get_parameter_scaling_factors :: "'f service_cls \<Rightarrow> int \<Rightarrow> 'f pyval list" where
  "get_parameter_scaling_factors c sf = map scale_factor (iter_parameter_fields c sf)"

text \<open>
  \<^verbatim>\<open>self.__getattribute__(n)\<close>.  The attribute \<^verbatim>\<open>subfunction\<close> is the subfunction of
  the record, an integer as its annotation says.
\<close>

definition getattribute :: "'f service_data \<Rightarrow> string \<Rightarrow> error + 'f pyval" where
  "getattribute self n =
     (if n = ''subfunction'' then Inr (PInt (subfunction self))
      else (case attrs self n of None \<Rightarrow> Inl AttributeError | Some v \<Rightarrow> Inr v))"

text \<open>
  Python evaluates \<^verbatim>\<open>map\<close>, \<^verbatim>\<open>zip\<close> and generator expressions on demand.  A lazy
  sequence is modelled as the list of its elements, each one the result of computing
  it (a value or the exception that computing it raises); a consumer reads it from the
  left and meets an exception only when it asks for that element.
\<close>

definition scaled :: "'f float_ops \<Rightarrow> (error + 'f pyval) \<times> 'f pyval \<Rightarrow> error + 'f pyval" where
  "scaled ops p = (case fst p of Inl e \<Rightarrow> Inl e | Inr val \<Rightarrow> py_mul ops val (snd p))"

definition get_parameter_values ::
  "'f float_ops \<Rightarrow> 'f service_data \<Rightarrow> int \<Rightarrow> bool \<Rightarrow> (error + 'f pyval) list"
where
  "get_parameter_values ops self sf scale =
     (let base_map = map (getattribute self) (iter_parameter_names (cls self) sf)
      in if \<not> scale then base_map
         else map (scaled ops) (zip base_map (get_parameter_scaling_factors (cls self) sf)))"

definition get_parameter_items ::
  "'f float_ops \<Rightarrow> 'f service_data \<Rightarrow> int \<Rightarrow> (string \<times> (error + 'f pyval)) list"
where
  "get_parameter_items ops self sf =
     zip (get_parameter_names (cls self) sf) (get_parameter_values ops self sf True)"

text \<open>
  \<^verbatim>\<open>all(kv_1 == kv_2 for kv_1, kv_2 in zip(xs, ys))\<close>: \<^verbatim>\<open>zip\<close> asks its first
  argument for an element, then its second, and stops as soon as one of them has no
  more; \<^verbatim>\<open>all\<close> stops at the first pair that differs.  An item is the tuple of a
  name and a scaled value.  The product \<^verbatim>\<open>val * factor\<close> that gives a float is a new
  object every time it is computed, so the values of two items are the same object
  only where they are \<^verbatim>\<open>==\<close> as well, and \<^verbatim>\<open>==\<close> alone decides.
\<close>

fun all_zip_equal ::
  "'f float_ops \<Rightarrow> (string \<times> (error + 'f pyval)) list \<Rightarrow> (string \<times> (error + 'f pyval)) list \<Rightarrow> error + bool"
where
  "all_zip_equal ops [] ys = Inr True"
| "all_zip_equal ops ((n, a) # xs) ys =
     (case a of
        Inl e \<Rightarrow> Inl e
      | Inr v \<Rightarrow>
          (case ys of
             [] \<Rightarrow> Inr True
           | (m, b) # ys' \<Rightarrow>
               (case b of
                  Inl e \<Rightarrow> Inl e
                | Inr w \<Rightarrow> if n = m \<and> py_eq ops v w then all_zip_equal ops xs ys' else Inr False)))"

text \<open>
  \<^verbatim>\<open>ServiceData.__eq__\<close>.  The other operand is any Python object; for one that is not
  a \<^verbatim>\<open>ServiceData\<close> the method returns \<^verbatim>\<open>NotImplemented\<close>.
\<close>

datatype 'f pyobject = ServiceDataObj "'f service_data" | OtherObj

datatype eq_result = NotImplemented | Compared bool

definition eq_method :: "'f float_ops \<Rightarrow> 'f service_data \<Rightarrow> 'f pyobject \<Rightarrow> error + eq_result" where
  "eq_method ops self other =
     (case other of
        OtherObj \<Rightarrow> Inr NotImplemented
      | ServiceDataObj other_data \<Rightarrow>
          (case all_zip_equal ops (get_parameter_items ops self NO_SUBFUNCTION)
                  (get_parameter_items ops other_data NO_SUBFUNCTION) of
             Inl e \<Rightarrow> Inl e
           | Inr b \<Rightarrow> Inr (Compared b)))"

text \<open>
  The \<^verbatim>\<open>__eq__\<close> that \<^verbatim>\<open>@dataclass\<close> generates:
  \<^verbatim>\<open>if other.__class__ is self.__class__: return (self.f1, ...) == (other.f1, ...)\<close>
  over the fields of the class whose option \<open>compare\<close> is true, \<^verbatim>\<open>subfunction\<close>
  first, and \<^verbatim>\<open>NotImplemented\<close> otherwise.  Both tuples are built before they are
  compared, and two tuples of one length are equal when their elements are pairwise
  the same object or \<^verbatim>\<open>==\<close>.
\<close>

definition generated_eq :: "'f float_ops \<Rightarrow> 'f service_data \<Rightarrow> 'f pyobject \<Rightarrow> error + eq_result" where
  "generated_eq ops self other =
     (case other of
        OtherObj \<Rightarrow> Inr NotImplemented
      | ServiceDataObj other_data \<Rightarrow>
          if cls other_data \<noteq> cls self then Inr NotImplemented
          else
            (let names = map (\<lambda>f. fst (field_default f)) (filter field_compare (dc_fields (cls self))) in
             case sequence_err (map (getattribute self) names) of
               Inl e \<Rightarrow> Inl e
             | Inr xs \<Rightarrow>
                 (case sequence_err (map (getattribute other_data) names) of
                    Inl e \<Rightarrow> Inl e
                  | Inr ys \<Rightarrow>
                      Inr (Compared (list_all (\<lambda>p. rich_compare_bool ops (fst p) (snd p)) (zip xs ys))))))"

text \<open>
  \<^verbatim>\<open>a == b\<close> for two records.  Python calls the \<^verbatim>\<open>__eq__\<close> of the left operand,
  unless the class of the right operand is a proper subclass of the class of the left
  one, whose method then goes first; a \<^verbatim>\<open>NotImplemented\<close> passes the question to the
  other operand, and after two of them Python compares the identities of the operands.
  Both methods answer \<^verbatim>\<open>NotImplemented\<close> only to a record of another class, which is
  another object, so that comparison is false.
\<close>

definition eq_of_class :: "'f float_ops \<Rightarrow> 'f service_data \<Rightarrow> 'f service_data \<Rightarrow> error + eq_result" where
  "eq_of_class ops self other =
     (if dataclass_eq (cls self) then generated_eq ops self (ServiceDataObj other)
      else eq_method ops self (ServiceDataObj other))"

definition py_equals :: "'f float_ops \<Rightarrow> 'f service_data \<Rightarrow> 'f service_data \<Rightarrow> error + bool" where
  "py_equals ops a b =
     (let reflected_first = (cls a \<noteq> cls b \<and> cls_id (cls a) \<in> set (bases (cls b)));
          first = (if reflected_first then eq_of_class ops b a else eq_of_class ops a b)
      in case first of
           Inl e \<Rightarrow> Inl e
         | Inr (Compared r) \<Rightarrow> Inr r
         | Inr NotImplemented \<Rightarrow>
             (case (if reflected_first then eq_of_class ops a b else eq_of_class ops b a) of
                Inl e \<Rightarrow> Inl e
              | Inr (Compared r) \<Rightarrow> Inr r
              | Inr NotImplemented \<Rightarrow> Inr False))"

text \<open>
  The constructor that \<^verbatim>\<open>@dataclass\<close> generates: every attribute takes its keyword
  argument, or the default of its field.  \<^verbatim>\<open>cls(subfunction=sf, **kwargs)\<close> is a
  \<^verbatim>\<open>TypeError\<close> when \<^verbatim>\<open>kwargs\<close> names \<^verbatim>\<open>subfunction\<close> again.  A dictionary keeps
  the last value stored under a key.
\<close>

definition new_instance ::
  "'f service_cls \<Rightarrow> int \<Rightarrow> (string \<times> 'f pyval) list \<Rightarrow> error + 'f service_data"
where
  "new_instance c sf kwargs =
     (if ''subfunction'' \<in> set (map fst kwargs) then Inl TypeError
      else Inr \<lparr>cls = c, subfunction = sf,
                attrs = (\<lambda>n. case map_of (rev kwargs) n of
                                Some v \<Rightarrow> Some v
                              | None \<Rightarrow> map_of (map field_default (declared_fields c)) n)\<rparr>)"

text \<open>
  \<^verbatim>\<open>cls()\<close>: every attribute takes the default of its field, the subfunction that of
  the field \<^verbatim>\<open>subfunction\<close>, the first of \<^verbatim>\<open>fields(cls)\<close>.  The field is annotated
  as an integer, and so is its default.
\<close>

definition subfunction_default :: "'f service_cls \<Rightarrow> int" where
  "subfunction_default c =
     (case snd (field_default (hd (dc_fields c))) of PInt i \<Rightarrow> i | _ \<Rightarrow> NO_SUBFUNCTION)"

definition default_instance :: "'f service_cls \<Rightarrow> 'f service_data" where
  "default_instance c =
     \<lparr>cls = c, subfunction = subfunction_default c,
      attrs = map_of (map field_default (declared_fields c))\<rparr>"

definition get_fmt_size_pairs :: "'f service_cls \<Rightarrow> error + (string \<times> nat) list" where
  "get_fmt_size_pairs c =
     sequence_err
       (map (\<lambda>f. case struct_calcsize (str_remove f) of Inl e \<Rightarrow> Inl e | Inr sz \<Rightarrow> Inr (f, sz))
          (iter_payload_fmt c NO_SUBFUNCTION))"

text \<open>
  \<^verbatim>\<open>{k: v * res for k, v, res in zip(parameter_names, args, resolutions)}\<close>, as the
  list of the pairs in the order they are stored.
\<close>

fun build_kwargs ::
  "'f float_ops \<Rightarrow> string list \<Rightarrow> 'f pyval list \<Rightarrow> 'f pyval list \<Rightarrow> error + (string \<times> 'f pyval) list"
where
  "build_kwargs ops (k # ks) (v # vs) (res # rs) =
     (case py_mul ops v res of
        Inl e \<Rightarrow> Inl e
      | Inr x \<Rightarrow> (case build_kwargs ops ks vs rs of Inl e \<Rightarrow> Inl e | Inr kw \<Rightarrow> Inr ((k, x) # kw)))"
| "build_kwargs ops _ _ _ = Inr []"

text \<open>
  The loop of \<^verbatim>\<open>unpack\<close> over the chunks.  When \<^verbatim>\<open>args\<close> is not empty its last element
  is taken off as the length of the next variable field.  A length that is not an
  integer ends in a \<^verbatim>\<open>TypeError\<close>: at \<^verbatim>\<open>end_index += next_length\<close> for bytes and text,
  and for a float at the slice \<^verbatim>\<open>data[start_index:end_index]\<close>, after \<^verbatim>\<open>fmt.format\<close>
  has run.
\<close>

fun unpack_chunks ::
  "'f float_ops \<Rightarrow> (string \<times> nat) list \<Rightarrow> byte list \<Rightarrow> int \<Rightarrow> int \<Rightarrow> 'f pyval list \<Rightarrow> error + 'f pyval list"
where
  "unpack_chunks ops [] data start_index end_index args = Inr args"
| "unpack_chunks ops ((f, sz) # rest) data start_index end_index args =
     (case (if args \<noteq> [] then
              (case last args of
                 PInt next_length \<Rightarrow>
                   (case str_format f [str_int next_length] of
                      Inl e \<Rightarrow> Inl e
                    | Inr f' \<Rightarrow> Inr (butlast args, end_index + next_length, f'))
               | PFloat x \<Rightarrow>
                   (case str_format f [[]] of Inl e \<Rightarrow> Inl e | Inr f' \<Rightarrow> Inl TypeError)
               | _ \<Rightarrow> Inl TypeError)
            else Inr (args, end_index, f)) of
        Inl e \<Rightarrow> Inl e
      | Inr (args', end_index', f') \<Rightarrow>
          (let end_index'' = end_index' + int sz in
           case struct_unpack ops f' (py_slice data start_index end_index'') of
             Inl e \<Rightarrow> Inl e
           | Inr vs \<Rightarrow> unpack_chunks ops rest data end_index'' end_index'' (args' @ vs)))"

text \<open>\<^verbatim>\<open>ServiceData.unpack\<close>; \<open>None\<close> and the empty buffer are both false for \<^verbatim>\<open>if data\<close>.\<close>

definition truthy :: "byte list option \<Rightarrow> bool" where
  "truthy data = (case data of None \<Rightarrow> False | Some bs \<Rightarrow> bs \<noteq> [])"

definition unpack ::
  "'f float_ops \<Rightarrow> 'f service_cls \<Rightarrow> byte list option \<Rightarrow> int \<Rightarrow> error + 'f service_data"
where
  "unpack ops c data sf =
     (let parameter_names = get_parameter_names c sf in
      if parameter_names = [] then
        (if truthy data then Inl MissingDataError else Inr (default_instance c))
      else if \<not> truthy data then Inl MissingDataError
      else
        (let format_strings = iter_payload_fmt c sf; bs = the data in
         if length format_strings = 1 then
           (case struct_unpack ops (hd format_strings) bs of
              Inl e \<Rightarrow> Inl e
            | Inr args \<Rightarrow>
                (case build_kwargs ops parameter_names args (get_parameter_resolutions c sf) of
                   Inl e \<Rightarrow> Inl e
                 | Inr kwargs \<Rightarrow> new_instance c sf kwargs))
         else
           (case get_fmt_size_pairs c of
              Inl e \<Rightarrow> Inl e
            | Inr pairs \<Rightarrow>
                (case unpack_chunks ops pairs bs 0 0 [] of
                   Inl e \<Rightarrow> Inl e
                 | Inr args \<Rightarrow>
                     (case build_kwargs ops parameter_names args (get_parameter_resolutions c sf) of
                        Inl e \<Rightarrow> Inl e
                      | Inr kwargs \<Rightarrow> new_instance c sf kwargs)))))"

definition has_variadic_fields :: "'f service_cls \<Rightarrow> int \<Rightarrow> bool" where
  "has_variadic_fields c sf = list_ex has_variable_length (iter_parameter_fields c sf)"

definition get_variadic_fields_indexes :: "'f service_cls \<Rightarrow> int \<Rightarrow> nat list" where
  "get_variadic_fields_indexes c sf =
     map fst (filter (\<lambda>(i, f). has_variable_length f) (enumerate 0 (iter_parameter_fields c sf)))"

text \<open>
  \<^verbatim>\<open>ServiceData.pack\<close>.  \<^verbatim>\<open>*args\<close> and \<^verbatim>\<open>list(args)\<close> run the generator of the scaled
  values to its end before anything is encoded.
\<close>

definition insert_lengths :: "'f pyval list \<Rightarrow> (nat \<times> nat) list \<Rightarrow> 'f pyval list" where
  "insert_lengths arg_list pairs =
     foldl (\<lambda>l (len, position). list_insert position (PInt (int len)) l) arg_list pairs"

definition pack :: "'f float_ops \<Rightarrow> 'f service_data \<Rightarrow> error + byte list" where
  "pack ops self =
     (let sf = subfunction self;
          format_strings = iter_payload_fmt (cls self) sf
      in if format_strings = [] then Inr []
         else
           (let subfunction_params = get_parameter_names (cls self) (subfunction self);
                value_getter = map (getattribute self) subfunction_params;
                args = map (scaled ops)
                         (zip value_getter (get_parameter_scaling_factors (cls self) (subfunction self)))
            in if length format_strings = 1 then
                 (case sequence_err args of
                    Inl e \<Rightarrow> Inl e
                  | Inr vals \<Rightarrow> struct_pack ops (format_strings ! 0) vals)
               else
                 (case sequence_err args of
                    Inl e \<Rightarrow> Inl e
                  | Inr arg_list \<Rightarrow>
                      (let length_indexes = get_variadic_fields_indexes (cls self) sf in
                       case sequence_err
                              (map (\<lambda>i. case list_get arg_list i of Inl e \<Rightarrow> Inl e | Inr a \<Rightarrow> py_len a)
                                 length_indexes) of
                         Inl e \<Rightarrow> Inl e
                       | Inr lengths \<Rightarrow>
                           (let arg_list' = insert_lengths arg_list (zip lengths length_indexes) in
                            case str_format (get_payload_fmt (cls self) NO_SUBFUNCTION)
                                   (map (\<lambda>n. str_int (int n)) lengths) of
                              Inl e \<Rightarrow> Inl e
                            | Inr f \<Rightarrow> struct_pack ops f arg_list')))))"

subsection \<open>\<^verbatim>\<open>pack\<close> on a store of objects\<close>

text \<open>
  The same method with the objects it works on kept in a store, to tell what it writes
  from what it reads.  The store holds the records and the lists; an address is an
  index into it, and a new object takes the first free address.  The values of the
  attributes are numbers, bytes and text, which no operation can change.  The caches of
  the class methods belong to the function objects, not to a record, and are not part
  of the store.
\<close>

datatype 'f obj = Record "'f service_data" | PyList "'f pyval list"

type_synonym 'f store = "'f obj list"

definition alloc :: "'f obj \<Rightarrow> 'f store \<Rightarrow> nat \<times> 'f store" where
  "alloc x h = (length h, h @ [x])"

text \<open>The list at an address, and \<^verbatim>\<open>arg_list.insert(position, x)\<close> for the list at \<open>p\<close>.\<close>

definition store_list :: "'f store \<Rightarrow> nat \<Rightarrow> 'f pyval list" where
  "store_list h p = (case h ! p of PyList l \<Rightarrow> l | Record r \<Rightarrow> [])"

definition store_list_insert :: "nat \<Rightarrow> nat \<Rightarrow> 'f pyval \<Rightarrow> 'f store \<Rightarrow> 'f store" where
  "store_list_insert p position x h =
     (case h ! p of PyList l \<Rightarrow> h[p := PyList (list_insert position x l)] | Record r \<Rightarrow> h)"

text \<open>
  \<^verbatim>\<open>self.pack()\<close> for the record at the address \<open>self\<close>: the result and the store
  it leaves.  \<^verbatim>\<open>list(args)\<close> creates the one new object, and the loop over the
  lengths updates it in place.
\<close>

definition pack_store :: "'f float_ops \<Rightarrow> 'f store \<Rightarrow> nat \<Rightarrow> (error + byte list) \<times> 'f store" where
  "pack_store ops h self =
     (case h ! self of
        PyList l \<Rightarrow> (Inl AttributeError, h)
      | Record r \<Rightarrow>
          (let sf = subfunction r;
               format_strings = iter_payload_fmt (cls r) sf
           in if format_strings = [] then (Inr [], h)
              else
                (let subfunction_params = get_parameter_names (cls r) (subfunction r);
                     value_getter = map (getattribute r) subfunction_params;
                     args = map (scaled ops)
                              (zip value_getter (get_parameter_scaling_factors (cls r) (subfunction r)))
                 in if length format_strings = 1 then
                      (case sequence_err args of
                         Inl e \<Rightarrow> (Inl e, h)
                       | Inr vals \<Rightarrow> (struct_pack ops (format_strings ! 0) vals, h))
                    else
                      (case sequence_err args of
                         Inl e \<Rightarrow> (Inl e, h)
                       | Inr vals \<Rightarrow>
                           (let (arg_list, h1) = alloc (PyList vals) h;
                                length_indexes = get_variadic_fields_indexes (cls r) sf
                            in case sequence_err
                                      (map (\<lambda>i. case list_get (store_list h1 arg_list) i of
                                                   Inl e \<Rightarrow> Inl e
                                                 | Inr a \<Rightarrow> py_len a)
                                         length_indexes) of
                                 Inl e \<Rightarrow> (Inl e, h1)
                               | Inr lengths \<Rightarrow>
                                   (let h2 = foldl (\<lambda>h' (len, position).
                                                      store_list_insert arg_list position (PInt (int len)) h')
                                               h1 (zip lengths length_indexes)
                                    in case str_format (get_payload_fmt (cls r) NO_SUBFUNCTION)
                                              (map (\<lambda>n. str_int (int n)) lengths) of
                                         Inl e \<Rightarrow> (Inl e, h2)
                                       | Inr f \<Rightarrow> (struct_pack ops f (store_list h2 arg_list), h2)))))))"

section \<open>\<^verbatim>\<open>BaseService\<close>\<close>

text \<open>
  The module \<^verbatim>\<open>udsoncan/response_code.py\<close> that defines \<^verbatim>\<open>ResponseCode\<close> is not among
  the source files, so the numbers of the response codes that \<^verbatim>\<open>BaseService\<close> names
  are a parameter of the model.
\<close>

record response_code =
  GeneralReject :: int
  ServiceNotSupported :: int
  ResponseTooLong :: int
  BusyRepeatRequest :: int
  ConditionsNotCorrect :: int
  NoResponseFromSubnetComponent :: int
  FailurePreventsExecutionOfRequestedAction :: int
  SecurityAccessDenied :: int
  AuthenticationRequired :: int
  SecureDataTransmissionRequired :: int
  SecureDataTransmissionNotAllowed :: int
  RequestCorrectlyReceived_ResponsePending :: int
  SubFunctionNotSupportedInActiveSession :: int
  ServiceNotSupportedInActiveSession :: int
  ResourceTemporarilyNotAvailable :: int

text \<open>
  Modelled from the spec: the negative response codes of ISO 14229-1, Annex A.1, the
  table that the comments of \<^verbatim>\<open>BaseService\<close> cite.  The spec gives \<open>0x22\<close> for
  ConditionsNotCorrect and \<open>0x10\<close> for GeneralReject; the other numbers are those of
  the standard.
\<close>

definition iso14229 :: response_code where
  "iso14229 =
     \<lparr>GeneralReject = 0x10, ServiceNotSupported = 0x11, ResponseTooLong = 0x14,
      BusyRepeatRequest = 0x21, ConditionsNotCorrect = 0x22,
      NoResponseFromSubnetComponent = 0x25, FailurePreventsExecutionOfRequestedAction = 0x26,
      SecurityAccessDenied = 0x33, AuthenticationRequired = 0x34,
      SecureDataTransmissionRequired = 0x38, SecureDataTransmissionNotAllowed = 0x39,
      RequestCorrectlyReceived_ResponsePending = 0x78,
      SubFunctionNotSupportedInActiveSession = 0x7E, ServiceNotSupportedInActiveSession = 0x7F,
      ResourceTemporarilyNotAvailable = 0x94\<rparr>"

text \<open>
  A service class: \<^verbatim>\<open>_sid\<close>, \<^verbatim>\<open>_use_subfunction\<close> (\<open>None\<close> when the class does not
  set the attribute) and \<^verbatim>\<open>supported_negative_response\<close>.
\<close>

record base_service =
  sid :: int
  use_subfunction_attr :: "bool option"
  supported_negative_response :: "int list"

definition always_valid_negative_response :: "response_code \<Rightarrow> int list" where
  "always_valid_negative_response rc =
     [GeneralReject rc, ServiceNotSupported rc, ResponseTooLong rc, BusyRepeatRequest rc,
      NoResponseFromSubnetComponent rc, FailurePreventsExecutionOfRequestedAction rc,
      SecurityAccessDenied rc, AuthenticationRequired rc, SecureDataTransmissionRequired rc,
      SecureDataTransmissionNotAllowed rc, RequestCorrectlyReceived_ResponsePending rc,
      ServiceNotSupportedInActiveSession rc, ResourceTemporarilyNotAvailable rc]"

definition request_id :: "base_service \<Rightarrow> int" where
  "request_id svc = sid svc"

definition response_id :: "base_service \<Rightarrow> int" where
  "response_id svc = sid svc + 0x40"

definition use_subfunction :: "base_service \<Rightarrow> bool" where
  "use_subfunction svc = (case use_subfunction_attr svc of Some b \<Rightarrow> b | None \<Rightarrow> True)"

definition is_supported_negative_response :: "response_code \<Rightarrow> base_service \<Rightarrow> int \<Rightarrow> bool" where
  "is_supported_negative_response rc svc code =
     (let supported = False;
          supported = (if code \<in> set (supported_negative_response svc) then True else supported);
          supported = (if code \<in> set (always_valid_negative_response rc) then True else supported);
          supported = (if code \<ge> 0x80 \<and> code < 0xFF
                          \<and> ConditionsNotCorrect rc \<in> set (supported_negative_response svc)
                       then True else supported);
          supported = (if code = SubFunctionNotSupportedInActiveSession rc \<and> use_subfunction svc
                       then True else supported)
      in supported)"

text \<open>
  A lazy sequence of items all of whose scaled values can be computed.
\<close>

definition computed :: "(string \<times> 'f pyval) list \<Rightarrow> (string \<times> (error + 'f pyval)) list" where
  "computed xs = map (\<lambda>p. (fst p, Inr (snd p))) xs"

text \<open>Two items are the same pair: equal names and values equal under \<^verbatim>\<open>==\<close>.\<close>

definition same_item :: "'f float_ops \<Rightarrow> (string \<times> 'f pyval) \<times> (string \<times> 'f pyval) \<Rightarrow> bool" where
  "same_item ops pq = (fst (fst pq) = fst (snd pq) \<and> py_eq ops (snd (fst pq)) (snd (snd pq)))"

section \<open>Example inputs\<close>

text \<open>
  A float implementation for examples whose values are integers and bytes only: no
  example below ever reaches one of its operations.
\<close>

definition no_floats :: "unit float_ops" where
  "no_floats =
     \<lparr>of_int_f = (\<lambda>i. None), mul_f = (\<lambda>x y. ()), recip_f = (\<lambda>x. None),
      eq_f = (\<lambda>x y. False), is_f = (\<lambda>x y. False), eq_int_f = (\<lambda>x i. False),
      enc_f = (\<lambda>c x. None),
      dec_f = (\<lambda>c n. ())\<rparr>"

text \<open>
  \<^verbatim>\<open>uds_field(default, fmt, subfunctions)\<close> with the resolution left at \<open>1\<close>, as the
  dataclass stores it under the name of the attribute.
\<close>

definition unit_field :: "string \<Rightarrow> 'f pyval \<Rightarrow> string \<Rightarrow> int list \<Rightarrow> 'f dc_field" where
  "unit_field n d f sfs =
     UdsField \<lparr>name = n, default_value = d, fmt = f, subfunctions = set sfs,
               resolution = PInt 1, scale_factor = PInt 1, compare = True\<rparr>"

text \<open>
  Record types after those of \<^verbatim>\<open>test_base_service.py\<close>, with integer formats in place
  of the float ones: one whose second field applies to subfunction 1 only, and one
  whose fields apply to every subfunction.
\<close>

definition AdvancedExample :: "unit service_cls" where
  "AdvancedExample =
     dataclass 2 ''AdvancedExample''
       [unit_field ''an_int'' (PInt 42) ''q'' [], unit_field ''a_byte'' (PInt 3) ''B'' [1]]"

definition SimpleExample :: "unit service_cls" where
  "SimpleExample =
     dataclass 3 ''SimpleExample''
       [unit_field ''an_int'' (PInt 42) ''q'' [], unit_field ''a_byte'' (PInt 3) ''B'' []]"

text \<open>A record type whose only field applies to subfunction 1.\<close>

definition SubOnlyExample :: "unit service_cls" where
  "SubOnlyExample = dataclass 4 ''SubOnlyExample'' [unit_field ''a_byte'' (PInt 3) ''B'' [1]]"

text \<open>
  A record type declared under \<^verbatim>\<open>@dataclass(eq=False)\<close>: it has the fields of a
  dataclass and inherits \<^verbatim>\<open>ServiceData.__eq__\<close>.
\<close>

definition NoEqExample :: "unit service_cls" where
  "NoEqExample =
     \<lparr>cls_id = 5, cls_name = ''NoEqExample'', bases = [cls_id (ServiceData :: unit service_cls)],
      dataclass_eq = False, declared_fields = [unit_field ''an_int'' (PInt 42) ''q'' []]\<rparr>"

text \<open>\<^verbatim>\<open>cls(subfunction=sf, an_int=i, a_byte=b)\<close> for these classes.\<close>

definition example_record :: "unit service_cls \<Rightarrow> int \<Rightarrow> int \<Rightarrow> int \<Rightarrow> unit service_data" where
  "example_record c sf i b =
     \<lparr>cls = c, subfunction = sf,
      attrs = (map_of (map field_default (declared_fields c)))
                (''an_int'' \<mapsto> PInt i, ''a_byte'' \<mapsto> PInt b)\<rparr>"

text \<open>
  The service of the validation table: its supported set is ConditionsNotCorrect alone
  and it uses a subfunction byte.
\<close>

definition example_service :: base_service where
  "example_service =
     \<lparr>sid = 0x10, use_subfunction_attr = Some True, supported_negative_response = [0x22]\<rparr>"

text \<open>
  A record type with two variable-length fields, each with a two-byte length in front
  of its bytes, and the record whose fields hold one byte and two bytes.
\<close>

definition TwoVariadicExample :: "unit service_cls" where
  "TwoVariadicExample =
     dataclass 6 ''TwoVariadicExample''
       [unit_field ''first_bytes'' (PBytes []) ''h{}s'' [],
        unit_field ''second_bytes'' (PBytes []) ''h{}s'' []]"

definition two_variadic_record :: "unit service_data" where
  "two_variadic_record =
     \<lparr>cls = TwoVariadicExample, subfunction = 0,
      attrs = [''first_bytes'' \<mapsto> PBytes [1], ''second_bytes'' \<mapsto> PBytes [2, 3]]\<rparr>"

text \<open>
  A record type with a field that applies to subfunction 1 only, followed by a
  variable-length field that applies to every subfunction, and its record
  \<^verbatim>\<open>cls(subfunction=sf, a_byte=7, some_bytes=b"\x01\x02")\<close>.
\<close>

definition SubVariadicExample :: "unit service_cls" where
  "SubVariadicExample =
     dataclass 7 ''SubVariadicExample''
       [unit_field ''a_byte'' (PInt 3) ''B'' [1],
        unit_field ''some_bytes'' (PBytes []) ''h{}s'' []]"

definition sub_variadic_record :: "int \<Rightarrow> unit service_data" where
  "sub_variadic_record sf =
     \<lparr>cls = SubVariadicExample, subfunction = sf,
      attrs = [''a_byte'' \<mapsto> PInt 7, ''some_bytes'' \<mapsto> PBytes [1, 2]]\<rparr>"

text \<open>
  \<^verbatim>\<open>ResponseDataPost2006\<close> of \<^verbatim>\<open>services/diagnostic_session_control.py\<close>: two fields
  with the integer format \<^verbatim>\<open>"H"\<close>, the default \<^verbatim>\<open>100.0\<close> (\<open>d\<close>) and the resolutions
  \<^verbatim>\<open>.001\<close> and \<^verbatim>\<open>.01\<close> (\<open>r1\<close>, \<open>r2\<close>).  The scale factors \<open>s1\<close> and \<open>s2\<close> are the
  floats \<^verbatim>\<open>1.0 / resolution\<close> that \<^verbatim>\<open>UdsField.__init__\<close> computes for a resolution
  other than 1.  The record holds the values \<open>v\<close> and \<open>w\<close> in the two fields.
\<close>

definition ResponseDataPost2006 :: "'f \<Rightarrow> 'f \<Rightarrow> 'f \<Rightarrow> 'f \<Rightarrow> 'f \<Rightarrow> 'f service_cls" where
  "ResponseDataPost2006 d r1 s1 r2 s2 =
     dataclass 8 ''ResponseDataPost2006''
       [UdsField \<lparr>name = ''p2_server_max'', default_value = PFloat d, fmt = ''H'',
                  subfunctions = {}, resolution = PFloat r1, scale_factor = PFloat s1,
                  compare = True\<rparr>,
        UdsField \<lparr>name = ''p2_star_server_max'', default_value = PFloat d, fmt = ''H'',
                  subfunctions = {}, resolution = PFloat r2, scale_factor = PFloat s2,
                  compare = True\<rparr>]"

definition post2006_record :: "'f service_cls \<Rightarrow> 'f pyval \<Rightarrow> 'f pyval \<Rightarrow> 'f service_data" where
  "post2006_record c v w =
     \<lparr>cls = c, subfunction = NO_SUBFUNCTION,
      attrs = [''p2_server_max'' \<mapsto> v, ''p2_star_server_max'' \<mapsto> w]\<rparr>"

section \<open>Which fields apply to a subfunction\<close>

lemma iter_fields_filter:
  "iter_fields fs sf = [f. UdsField f \<leftarrow> fs, subfunctions f = {} \<or> sf \<in> subfunctions f]"
proof (induction fs)
  case Nil
  show ?case by simp
next
  case (Cons x xs)
  then show ?case by (cases x) (simp_all add: supports_subfonction_def)
qed

text \<open>
  C8.  \<^verbatim>\<open>get_parameter_names(sf)\<close> is the names, in declaration order, of the
  \<^verbatim>\<open>UdsField\<close>s among the fields of the class whose set of subfunctions is empty or
  contains \<open>sf\<close>; and \<^verbatim>\<open>supports_subfonction(n)\<close> is true exactly when the set of the
  field is empty or contains \<open>n\<close>.
\<close>

theorem get_parameter_names_filter:
  "get_parameter_names c sf =
     map name [f. UdsField f \<leftarrow> dc_fields c, subfunctions f = {} \<or> sf \<in> subfunctions f]
   \<and> supports_subfonction f n = (subfunctions f = {} \<or> n \<in> subfunctions f)"
  by (simp add: get_parameter_names_def iter_parameter_names_def iter_parameter_fields_def
      iter_fields_filter supports_subfonction_def)

section \<open>Negative response codes\<close>

text \<open>
  C3, as amended.  For a service whose supported set is ConditionsNotCorrect alone and
  which uses a subfunction byte, with ConditionsNotCorrect numbered \<open>0x22\<close> and
  GeneralReject \<open>0x10\<close>: the codes \<open>0x22\<close>, \<open>0x10\<close>, \<open>0x90\<close> and
  SubFunctionNotSupportedInActiveSession are supported, and \<open>0x7F\<close> is supported
  exactly when it is the number of an always-valid code or of
  SubFunctionNotSupportedInActiveSession.
\<close>

theorem negative_response_table:
  assumes "ConditionsNotCorrect rc = 0x22" and "GeneralReject rc = 0x10"
    and "supported_negative_response svc = [ConditionsNotCorrect rc]"
    and "use_subfunction svc"
  shows "is_supported_negative_response rc svc 0x22
       \<and> is_supported_negative_response rc svc 0x10
       \<and> is_supported_negative_response rc svc 0x90
       \<and> is_supported_negative_response rc svc (SubFunctionNotSupportedInActiveSession rc)
       \<and> (is_supported_negative_response rc svc 0x7F
            = (0x7F \<in> set (always_valid_negative_response rc)
               \<or> 0x7F = SubFunctionNotSupportedInActiveSession rc))"
  using assms
  by (simp add: is_supported_negative_response_def always_valid_negative_response_def)

text \<open>
  With the numbers of ISO 14229-1, \<open>0x7F\<close> is ServiceNotSupportedInActiveSession, one
  of the always-valid codes, so the service of the table supports all five codes.
\<close>

theorem negative_response_table_witness:
  "ConditionsNotCorrect iso14229 = 0x22 \<and> GeneralReject iso14229 = 0x10
   \<and> supported_negative_response example_service = [ConditionsNotCorrect iso14229]
   \<and> use_subfunction example_service
   \<and> is_supported_negative_response iso14229 example_service 0x22
   \<and> is_supported_negative_response iso14229 example_service 0x10
   \<and> is_supported_negative_response iso14229 example_service 0x90
   \<and> is_supported_negative_response iso14229 example_service 0x7E
   \<and> is_supported_negative_response iso14229 example_service 0x7F"
  using negative_response_table [of iso14229 example_service]
  by (simp add: iso14229_def example_service_def use_subfunction_def
      always_valid_negative_response_def)

text \<open>The claim that \<open>0x7F\<close> is not supported fails for that service.\<close>

theorem negative_response_0x7F_counterexample:
  "\<not> (is_supported_negative_response iso14229 example_service 0x7F = False)"
  by (simp add: is_supported_negative_response_def always_valid_negative_response_def
      iso14229_def example_service_def use_subfunction_def)

section \<open>The two errors that \<^verbatim>\<open>unpack\<close> raises itself\<close>

lemma sequence_err_error: "sequence_err xs = Inl e \<Longrightarrow> Inl e \<in> set xs"
  by (induction xs) (auto split: sum.splits)

lemma code_items_not_missing: "code_items cnt c \<noteq> Inl MissingDataError"
  by (simp add: code_items_def Let_def)

lemma parse_items_not_missing: "parse_items cnt s \<noteq> Inl MissingDataError"
proof (induction cnt s rule: parse_items.induct)
  case (3 cnt c cs)
  then show ?case
    using code_items_not_missing [of cnt c] by (auto split: sum.splits)
qed simp_all

lemma struct_items_not_missing: "struct_items f \<noteq> Inl MissingDataError"
  by (simp add: struct_items_def parse_items_not_missing split: list.splits)

lemma struct_calcsize_not_missing: "struct_calcsize f \<noteq> Inl MissingDataError"
  using struct_items_not_missing [of f] by (auto simp: struct_calcsize_def split: sum.splits)

lemma struct_unpack_not_missing: "struct_unpack ops f data \<noteq> Inl MissingDataError"
  using struct_items_not_missing [of f] by (auto simp: struct_unpack_def split: sum.splits)

lemma str_format_not_missing: "str_format s args \<noteq> Inl MissingDataError"
proof (induction s args rule: str_format.induct)
  case (1 args)
  show ?case by simp
next
  case (2 c cs args)
  show ?case
  proof (cases "c = CHR ''{'' \<or> c = CHR ''}''")
    case False
    with "2.IH"(4) have "str_format cs args \<noteq> Inl MissingDataError" by simp
    with False show ?thesis by (auto split: sum.split)
  next
    case brace: True
    show ?thesis
    proof (cases cs)
      case Nil
      with brace show ?thesis by auto
    next
      case (Cons d ds)
      have a: "d = c \<Longrightarrow> str_format ds args \<noteq> Inl MissingDataError"
        using "2.IH"(1) [of d ds] "2.IH"(3) [of d ds] brace Cons by auto
      have b: "\<And>x xs. c = CHR ''{'' \<Longrightarrow> d = CHR ''}'' \<Longrightarrow> args = x # xs
                 \<Longrightarrow> str_format ds xs \<noteq> Inl MissingDataError"
        using "2.IH"(2) [of d ds] Cons by auto
      show ?thesis
      proof (cases "d = c")
        case True
        with a have "str_format ds args \<noteq> Inl MissingDataError" by simp
        with True brace Cons show ?thesis by (cases "str_format ds args") auto
      next
        case False
        show ?thesis
        proof (cases args)
          case Nil
          with False brace Cons show ?thesis by auto
        next
          case (Cons x xs)
          show ?thesis
          proof (cases "c = CHR ''{'' \<and> d = CHR ''}''")
            case True
            with b Cons have "str_format ds xs \<noteq> Inl MissingDataError" by simp
            with True Cons \<open>cs = d # ds\<close> show ?thesis
              by (cases "str_format ds xs") auto
          next
            case False
            with \<open>d \<noteq> c\<close> brace \<open>cs = d # ds\<close> show ?thesis by auto
          qed
        qed
      qed
    qed
  qed
qed

lemma py_mul_not_missing: "py_mul ops v w \<noteq> Inl MissingDataError"
  by (cases "(ops, v, w)" rule: py_mul.cases) (auto split: option.splits)

lemma build_kwargs_not_missing: "build_kwargs ops ks vs rs \<noteq> Inl MissingDataError"
  by (induction ops ks vs rs rule: build_kwargs.induct)
     (auto simp: py_mul_not_missing split: sum.splits)

lemma new_instance_not_missing: "new_instance c sf kw \<noteq> Inl MissingDataError"
  by (simp add: new_instance_def)

lemma get_fmt_size_pairs_not_missing: "get_fmt_size_pairs c \<noteq> Inl MissingDataError"
proof
  assume "get_fmt_size_pairs c = Inl MissingDataError"
  then have "Inl MissingDataError
      \<in> set (map (\<lambda>f. case struct_calcsize (str_remove f) of Inl e \<Rightarrow> Inl e | Inr sz \<Rightarrow> Inr (f, sz))
               (iter_payload_fmt c NO_SUBFUNCTION))"
    unfolding get_fmt_size_pairs_def by (rule sequence_err_error)
  then show False
    using struct_calcsize_not_missing by (auto split: sum.splits)
qed

lemma unpack_chunks_not_missing:
  "unpack_chunks ops pairs data s e args \<noteq> Inl MissingDataError"
proof (induction ops pairs data s e args rule: unpack_chunks.induct)
  case (2 ops f sz rest data start_index end_index args)
  then show ?case
    by (auto simp: Let_def str_format_not_missing struct_unpack_not_missing
        split: sum.splits pyval.splits if_splits prod.splits)
qed simp

text \<open>
  C5.  \<^verbatim>\<open>unpack(data, subfunction)\<close> ends in the error that the spec calls
  MissingDataError in exactly two situations: no field applies to the subfunction and
  the data is not empty, or fields apply and the data is empty or absent.  When no
  field applies and the data is empty or absent it returns the record of the defaults.
\<close>

theorem unpack_missing_data:
  "(unpack ops c data sf = Inl MissingDataError)
     = ((get_parameter_names c sf = [] \<and> truthy data)
        \<or> (get_parameter_names c sf \<noteq> [] \<and> \<not> truthy data))
   \<and> (get_parameter_names c sf = [] \<and> \<not> truthy data
        \<longrightarrow> unpack ops c data sf = Inr (default_instance c))"
  by (auto simp: unpack_def Let_def struct_unpack_not_missing build_kwargs_not_missing
      new_instance_not_missing get_fmt_size_pairs_not_missing unpack_chunks_not_missing
      split: sum.splits)

theorem unpack_missing_data_witness:
  "get_parameter_names EmptyServiceData 0 = [] \<and> \<not> truthy None
   \<and> unpack no_floats EmptyServiceData None 0 = Inr (default_instance EmptyServiceData)
   \<and> unpack no_floats EmptyServiceData (Some [1]) 0 = Inl MissingDataError"
  using unpack_missing_data [of no_floats EmptyServiceData None 0]
    unpack_missing_data [of no_floats EmptyServiceData "Some [1]" 0]
  by (simp add: get_parameter_names_def iter_parameter_names_def iter_parameter_fields_def
      dc_fields_def EmptyServiceData_def truthy_def)

section \<open>Equality of records\<close>

lemma all_zip_equal_computed:
  "all_zip_equal ops (computed xs) (computed ys) = Inr (list_all (same_item ops) (zip xs ys))"
proof (induction xs arbitrary: ys)
  case Nil
  show ?case by (simp add: computed_def)
next
  case (Cons x xs)
  show ?case
  proof (cases ys)
    case Nil
    then show ?thesis by (cases x) (simp add: computed_def)
  next
    case (Cons y ys')
    with Cons.IH [of ys'] show ?thesis
      by (cases x; cases y) (auto simp: computed_def same_item_def)
  qed
qed

lemma eq_method_computed:
  assumes "get_parameter_items ops a NO_SUBFUNCTION = computed xs"
    and "get_parameter_items ops b NO_SUBFUNCTION = computed ys"
  shows "eq_method ops a (ServiceDataObj b) = Inr (Compared (list_all (same_item ops) (zip xs ys)))"
  using assms by (simp add: eq_method_def all_zip_equal_computed)

lemma get_parameter_items_empty:
  "get_parameter_names (cls a) sf = [] \<Longrightarrow> get_parameter_items ops a sf = computed []"
  by (simp add: get_parameter_items_def computed_def)

lemma py_equals_custom:
  assumes custom: "\<not> dataclass_eq (cls a)"
    and ab: "eq_method ops a (ServiceDataObj b) = Inr (Compared True)"
    and ba: "eq_method ops b (ServiceDataObj a) = Inr (Compared True)"
  shows "py_equals ops a b = Inr True \<and> py_equals ops b a = Inr True"
proof (cases "dataclass_eq (cls b)")
  case True
  with custom have ne: "cls a \<noteq> cls b" by auto
  then have ni: "generated_eq ops b (ServiceDataObj a) = Inr NotImplemented"
    by (simp add: generated_eq_def)
  from True custom ab ni ne show ?thesis
    by (simp add: py_equals_def eq_of_class_def Let_def)
next
  case False
  with custom ab ba show ?thesis
    by (simp add: py_equals_def eq_of_class_def Let_def)
qed

text \<open>
  C9, as amended.  Let \<open>a\<close> be a record for whose class \<^verbatim>\<open>==\<close> runs
  \<^verbatim>\<open>ServiceData.__eq__\<close> with its truncating \<^verbatim>\<open>zip\<close>, no generated \<^verbatim>\<open>__eq__\<close>
  standing in front of it, and let the scaled items of the other record \<open>b\<close> for the
  default subfunction be computable.  If no field of \<open>a\<close> applies to the default
  subfunction, \<open>a\<close> and \<open>b\<close> compare equal, whichever is the left operand and
  whatever the class and the values of \<open>b\<close>; more generally they compare equal
  whenever the items of \<open>a\<close> are computable too and the items of the shorter sequence
  are the same pairs as the items of the longer one at the same positions.
\<close>

theorem eq_truncating_zip:
  assumes "\<not> dataclass_eq (cls a)"
    and "get_parameter_items ops b NO_SUBFUNCTION = computed ys"
  shows "(get_parameter_names (cls a) NO_SUBFUNCTION = []
            \<longrightarrow> py_equals ops a b = Inr True \<and> py_equals ops b a = Inr True)
       \<and> (get_parameter_items ops a NO_SUBFUNCTION = computed xs
            \<and> list_all (same_item ops) (zip xs ys) \<and> list_all (same_item ops) (zip ys xs)
            \<longrightarrow> py_equals ops a b = Inr True \<and> py_equals ops b a = Inr True)"
proof (intro conjI impI)
  assume "get_parameter_names (cls a) NO_SUBFUNCTION = []"
  then have a: "get_parameter_items ops a NO_SUBFUNCTION = computed []"
    by (rule get_parameter_items_empty)
  have "eq_method ops a (ServiceDataObj b) = Inr (Compared True)"
    and "eq_method ops b (ServiceDataObj a) = Inr (Compared True)"
    using eq_method_computed [OF a assms(2)] eq_method_computed [OF assms(2) a] by simp_all
  with assms(1) have *: "py_equals ops a b = Inr True \<and> py_equals ops b a = Inr True"
    by (rule py_equals_custom)
  from * show "py_equals ops a b = Inr True" ..
  from * show "py_equals ops b a = Inr True" ..
next
  assume h: "get_parameter_items ops a NO_SUBFUNCTION = computed xs
            \<and> list_all (same_item ops) (zip xs ys) \<and> list_all (same_item ops) (zip ys xs)"
  then have a: "get_parameter_items ops a NO_SUBFUNCTION = computed xs" by simp
  have "eq_method ops a (ServiceDataObj b) = Inr (Compared True)"
    and "eq_method ops b (ServiceDataObj a) = Inr (Compared True)"
    using eq_method_computed [OF a assms(2)] eq_method_computed [OF assms(2) a] h by simp_all
  with assms(1) have *: "py_equals ops a b = Inr True \<and> py_equals ops b a = Inr True"
    by (rule py_equals_custom)
  from * show "py_equals ops a b = Inr True" ..
  from * show "py_equals ops b a = Inr True" ..
qed

lemmas cls_defs = AdvancedExample_def SimpleExample_def SubOnlyExample_def NoEqExample_def
  EmptyServiceData_def ServiceData_def dataclass_def unit_field_def example_record_def
  default_instance_def

lemmas param_defs = get_parameter_items_def get_parameter_names_def get_parameter_values_def
  iter_parameter_names_def iter_parameter_fields_def dc_fields_def is_subfunction_field_def
  get_parameter_scaling_factors_def supports_subfonction_def getattribute_def scaled_def
  NO_SUBFUNCTION_def

lemma items_Advanced:
  "get_parameter_items no_floats (example_record AdvancedExample sf i b) NO_SUBFUNCTION
     = computed [(''an_int'', PInt i)]"
  by (simp add: cls_defs param_defs computed_def)

lemma items_Simple:
  "get_parameter_items no_floats (example_record SimpleExample sf i b) NO_SUBFUNCTION
     = computed [(''an_int'', PInt i), (''a_byte'', PInt b)]"
  by (simp add: cls_defs param_defs computed_def)

lemma items_NoEq:
  "get_parameter_items no_floats (example_record NoEqExample sf i b) NO_SUBFUNCTION
     = computed [(''an_int'', PInt i)]"
  by (simp add: cls_defs param_defs computed_def)

lemma items_Empty:
  "get_parameter_items no_floats (default_instance EmptyServiceData) NO_SUBFUNCTION = computed []"
  by (simp add: cls_defs param_defs computed_def)

text \<open>
  The record of \<^verbatim>\<open>EmptyServiceData\<close>, which has no field, against a record with two
  fields; and a record with the one field \<^verbatim>\<open>an_int\<close>, whose class has no generated
  \<^verbatim>\<open>__eq__\<close>, against a record of another class with the same \<^verbatim>\<open>an_int\<close> and a
  second field.
\<close>

theorem eq_truncating_zip_witness:
  "\<not> dataclass_eq (cls (default_instance EmptyServiceData))
   \<and> get_parameter_names (cls (default_instance EmptyServiceData)) NO_SUBFUNCTION = []
   \<and> py_equals no_floats (default_instance EmptyServiceData) (example_record SimpleExample 0 1 2) = Inr True
   \<and> py_equals no_floats (example_record SimpleExample 0 1 2) (default_instance EmptyServiceData) = Inr True
   \<and> \<not> dataclass_eq (cls (example_record NoEqExample 0 1 0))
   \<and> get_parameter_items no_floats (example_record NoEqExample 0 1 0) NO_SUBFUNCTION
        = computed [(''an_int'', PInt 1)]
   \<and> get_parameter_items no_floats (example_record SimpleExample 0 1 2) NO_SUBFUNCTION
        = computed [(''an_int'', PInt 1), (''a_byte'', PInt 2)]
   \<and> py_equals no_floats (example_record NoEqExample 0 1 0) (example_record SimpleExample 0 1 2) = Inr True
   \<and> py_equals no_floats (example_record SimpleExample 0 1 2) (example_record NoEqExample 0 1 0) = Inr True"
proof -
  have 1: "py_equals no_floats (default_instance EmptyServiceData) (example_record SimpleExample 0 1 2) = Inr True
         \<and> py_equals no_floats (example_record SimpleExample 0 1 2) (default_instance EmptyServiceData) = Inr True"
    using eq_truncating_zip [of "default_instance EmptyServiceData" no_floats
        "example_record SimpleExample 0 1 2" "[(''an_int'', PInt 1), (''a_byte'', PInt 2)]" "[]"]
      items_Simple [of 0 1 2]
    by (simp add: cls_defs param_defs)
  have 2: "py_equals no_floats (example_record NoEqExample 0 1 0) (example_record SimpleExample 0 1 2) = Inr True
         \<and> py_equals no_floats (example_record SimpleExample 0 1 2) (example_record NoEqExample 0 1 0) = Inr True"
    using eq_truncating_zip [of "example_record NoEqExample 0 1 0" no_floats
        "example_record SimpleExample 0 1 2" "[(''an_int'', PInt 1), (''a_byte'', PInt 2)]"
        "[(''an_int'', PInt 1)]"]
      items_Simple [of 0 1 2] items_NoEq [of 0 1 0]
    by (simp add: same_item_def cls_defs)
  have 3: "\<not> dataclass_eq (cls (default_instance EmptyServiceData))
      \<and> get_parameter_names (cls (default_instance EmptyServiceData)) NO_SUBFUNCTION = []
      \<and> \<not> dataclass_eq (cls (example_record NoEqExample 0 1 0))"
    by (simp add: cls_defs param_defs)
  from 1 2 3 items_Simple [of 0 1 2] items_NoEq [of 0 1 0] show ?thesis by simp
qed

text \<open>
  The claim fails where a generated \<^verbatim>\<open>__eq__\<close> runs on both sides: a record none of
  whose fields applies to the default subfunction is not equal to a record of another
  class, and a record whose item sequence is a prefix of that of a record of another
  class is not equal to it.
\<close>

theorem eq_truncating_zip_counterexample:
  "get_parameter_names (cls (default_instance SubOnlyExample)) NO_SUBFUNCTION = []
   \<and> py_equals no_floats (default_instance SubOnlyExample) (example_record SimpleExample 0 1 2) = Inr False
   \<and> get_parameter_items no_floats (example_record AdvancedExample 0 1 2) NO_SUBFUNCTION
        = computed [(''an_int'', PInt 1)]
   \<and> get_parameter_items no_floats (example_record SimpleExample 0 1 2) NO_SUBFUNCTION
        = computed [(''an_int'', PInt 1), (''a_byte'', PInt 2)]
   \<and> py_equals no_floats (example_record AdvancedExample 0 1 2) (example_record SimpleExample 0 1 2) = Inr False"
proof -
  have "generated_eq no_floats (default_instance SubOnlyExample)
          (ServiceDataObj (example_record SimpleExample 0 1 2)) = Inr NotImplemented"
    and "generated_eq no_floats (example_record SimpleExample 0 1 2)
          (ServiceDataObj (default_instance SubOnlyExample)) = Inr NotImplemented"
    and "generated_eq no_floats (example_record AdvancedExample 0 1 2)
          (ServiceDataObj (example_record SimpleExample 0 1 2)) = Inr NotImplemented"
    and "generated_eq no_floats (example_record SimpleExample 0 1 2)
          (ServiceDataObj (example_record AdvancedExample 0 1 2)) = Inr NotImplemented"
    by (simp_all add: generated_eq_def cls_defs)
  then have "py_equals no_floats (default_instance SubOnlyExample) (example_record SimpleExample 0 1 2) = Inr False"
    and "py_equals no_floats (example_record AdvancedExample 0 1 2) (example_record SimpleExample 0 1 2) = Inr False"
    by (simp_all add: py_equals_def eq_of_class_def Let_def cls_defs)
  moreover have "get_parameter_names (cls (default_instance SubOnlyExample)) NO_SUBFUNCTION = []"
    by (simp add: cls_defs param_defs)
  ultimately show ?thesis
    using items_Advanced [of 0 1 2] items_Simple [of 0 1 2] by simp
qed

lemma generated_eq_Advanced:
  "generated_eq no_floats (example_record AdvancedExample sf i b)
     (ServiceDataObj (example_record AdvancedExample sf' i' b'))
   = Inr (Compared (sf = sf' \<and> i = i' \<and> b = b'))"
  by (simp add: generated_eq_def cls_defs dc_fields_def is_subfunction_field_def
      getattribute_def Let_def)

text \<open>
  C4, at a failing input.  The two records of one class declared under \<^verbatim>\<open>@dataclass\<close>
  have subfunction 0 and the same items for it; they differ in the field \<^verbatim>\<open>a_byte\<close>,
  which applies to subfunction 1 only.  They are not equal: the \<^verbatim>\<open>__eq__\<close> that the
  decorator generated for their class stands in front of \<^verbatim>\<open>ServiceData.__eq__\<close> and
  compares every field.  Where \<^verbatim>\<open>ServiceData.__eq__\<close> does run, its \<^verbatim>\<open>zip\<close> stops at
  the shorter sequence: the record of \<^verbatim>\<open>EmptyServiceData\<close> has other items than a
  record of an unrelated class and is equal to it.
\<close>

theorem record_equality_fails:
  "get_parameter_items no_floats (example_record AdvancedExample 0 1 2) 0
     = get_parameter_items no_floats (example_record AdvancedExample 0 1 3) 0
   \<and> py_equals no_floats (example_record AdvancedExample 0 1 2) (example_record AdvancedExample 0 1 3) = Inr False
   \<and> get_parameter_items no_floats (default_instance EmptyServiceData) 0
     \<noteq> get_parameter_items no_floats (example_record SimpleExample 0 1 2) 0
   \<and> py_equals no_floats (default_instance EmptyServiceData) (example_record SimpleExample 0 1 2) = Inr True"
proof -
  have 1: "py_equals no_floats (example_record AdvancedExample 0 1 2) (example_record AdvancedExample 0 1 3) = Inr False"
    using generated_eq_Advanced [of 0 1 2 0 1 3]
    by (simp add: py_equals_def eq_of_class_def Let_def cls_defs)
  have "eq_method no_floats (default_instance EmptyServiceData) (ServiceDataObj (example_record SimpleExample 0 1 2))
      = Inr (Compared True)"
    using eq_method_computed [OF items_Empty items_Simple [of 0 1 2]] by simp
  then have 2: "py_equals no_floats (default_instance EmptyServiceData) (example_record SimpleExample 0 1 2) = Inr True"
    by (simp add: py_equals_def eq_of_class_def Let_def cls_defs)
  from 1 2 show ?thesis
    using items_Advanced [of 0 1 2] items_Advanced [of 0 1 3] items_Empty items_Simple [of 0 1 2]
    by (simp add: NO_SUBFUNCTION_def computed_def)
qed

section \<open>Packing records with variable-length fields\<close>

text \<open>
  C2, at a failing input: a record with two variable-length fields, at positions 0 and
  1, holding one byte and two bytes.  \<^verbatim>\<open>pack\<close> inserts both lengths at the positions
  the fields had before anything was inserted, so the second length lands in front of
  the first field and the argument sequence is \<open>1, 2, b1, b2\<close>; the format
  \<^verbatim>\<open>">h1sh2s"\<close> finds an integer where it expects bytes and \<^verbatim>\<open>pack\<close> ends in
  \<^verbatim>\<open>struct.error\<close>.  With each length immediately in front of its field, as the claim
  has it, the same format encodes the record.
\<close>

theorem pack_two_variadic_fields_fails:
  "get_variadic_fields_indexes TwoVariadicExample 0 = [0, 1]
   \<and> insert_lengths [PBytes [1], PBytes [2, 3]]
         (zip [1, 2] (get_variadic_fields_indexes TwoVariadicExample 0))
       = [PInt 1, PInt 2, PBytes [1], PBytes [2, 3] :: unit pyval]
   \<and> pack no_floats two_variadic_record = Inl TranscodeError
   \<and> struct_pack no_floats ''>h1sh2s'' [PInt 1, PBytes [1], PInt 2, PBytes [2, 3]]
       = Inr [0, 1, 1, 0, 2, 2, 3]"
  by code_simp

text \<open>
  C1, at a failing input: a record with subfunction 1 whose class has a field for
  subfunction 1 only and a variable-length field.  \<^verbatim>\<open>pack\<close> takes the chunks, the
  values and the positions of the lengths for subfunction 1, and the format it passes
  to \<^verbatim>\<open>struct.pack\<close> from \<^verbatim>\<open>get_payload_fmt()\<close>, which is the format of the default
  subfunction: three values meet a format of two items and \<^verbatim>\<open>pack\<close> ends in
  \<^verbatim>\<open>struct.error\<close>, so there are no bytes to unpack.  The same record with
  subfunction 0 is encoded.
\<close>

theorem round_trip_pack_fails:
  "iter_payload_fmt SubVariadicExample 1 = [''>Bh'', ''>{}s'']
   \<and> get_payload_fmt SubVariadicExample 1 = ''>Bh{}s''
   \<and> get_payload_fmt SubVariadicExample NO_SUBFUNCTION = ''>h{}s''
   \<and> pack no_floats (sub_variadic_record 1) = Inl TranscodeError
   \<and> pack no_floats (sub_variadic_record 0) = Inr [0, 2, 1, 2]"
  by code_simp

section \<open>Fields with a resolution\<close>

lemma UdsField_init_scale_factor:
  assumes "UdsField_init ops nm d f sfs res cmp = Inr fld"
  shows "fmt fld = f \<and> resolution fld = res
       \<and> (if py_eq ops res (PInt 1) then scale_factor fld = PInt 1
           else \<exists>s. scale_factor fld = PFloat s)"
  using assms
  by (auto simp: UdsField_init_def Let_def split: if_splits pyval.splits option.splits)

lemma struct_items_HH: "struct_items ''>HH'' = Inr [ItInt False 2, ItInt False 2]"
  by (simp add: struct_items_def is_ascii_def is_digit_def is_space_def code_items_def)

lemma scaled_by_float:
  "py_mul ops v (PFloat s) = Inr u \<Longrightarrow> \<exists>x. u = PFloat x"
  by (cases v) (auto split: option.splits)

lemma fmt_Post2006:
  "iter_payload_fmt (ResponseDataPost2006 d r1 s1 r2 s2) NO_SUBFUNCTION = [''>HH'']"
  by (simp add: iter_payload_fmt_def iter_parameter_fields_def dc_fields_def
      is_subfunction_field_def ResponseDataPost2006_def dataclass_def supports_subfonction_def
      ENDIANNESS_def Let_def)

text \<open>
  C7, at a failing input: the record type \<^verbatim>\<open>ResponseDataPost2006\<close> of the repository,
  whose fields have an integer format and a resolution other than 1.  The scale factor
  of such a field is a float, the scaled value of every number is a float, and the
  integer format refuses a float: whatever the two values are, \<^verbatim>\<open>pack\<close> returns no
  bytes, and for float values such as the defaults it ends in \<^verbatim>\<open>struct.error\<close>.  So
  there is nothing to unpack and compare with the original value.
\<close>

theorem integer_format_with_resolution_fails:
  "pack ops (post2006_record (ResponseDataPost2006 d r1 s1 r2 s2) v w) \<noteq> Inr bs
   \<and> pack ops (post2006_record (ResponseDataPost2006 d r1 s1 r2 s2) (PFloat x) (PFloat y))
       = Inl TranscodeError"
proof -
  have names: "get_parameter_names (ResponseDataPost2006 d r1 s1 r2 s2) NO_SUBFUNCTION
      = [''p2_server_max'', ''p2_star_server_max'']"
    and factors: "get_parameter_scaling_factors (ResponseDataPost2006 d r1 s1 r2 s2) NO_SUBFUNCTION
      = [PFloat s1, PFloat s2]"
    by (simp_all add: get_parameter_names_def iter_parameter_names_def
        get_parameter_scaling_factors_def iter_parameter_fields_def dc_fields_def
        is_subfunction_field_def ResponseDataPost2006_def dataclass_def supports_subfonction_def)
  have p: "pack ops (post2006_record (ResponseDataPost2006 d r1 s1 r2 s2) v' w')
      = (case sequence_err [py_mul ops v' (PFloat s1), py_mul ops w' (PFloat s2)] of
           Inl e \<Rightarrow> Inl e
         | Inr vals \<Rightarrow> struct_pack ops ''>HH'' vals)" for v' w'
    by (simp add: pack_def post2006_record_def fmt_Post2006 names factors getattribute_def
        scaled_def Let_def cong: sum.case_cong)
  have 1: "pack ops (post2006_record (ResponseDataPost2006 d r1 s1 r2 s2) v w) \<noteq> Inr bs"
  proof (cases "py_mul ops v (PFloat s1)")
    case (Inl e)
    with p [of v w] show ?thesis by simp
  next
    case a: (Inr u)
    from scaled_by_float [OF a] obtain x' where u: "u = PFloat x'" by blast
    show ?thesis
    proof (cases "py_mul ops w (PFloat s2)")
      case (Inl e)
      with p [of v w] a show ?thesis by simp
    next
      case b: (Inr u')
      from scaled_by_float [OF b] obtain y' where u': "u' = PFloat y'" by blast
      from p [of v w] a b u u' show ?thesis
        by (simp add: struct_pack_def struct_items_HH)
    qed
  qed
  have 2: "pack ops (post2006_record (ResponseDataPost2006 d r1 s1 r2 s2) (PFloat x) (PFloat y))
       = Inl TranscodeError"
    using p [of "PFloat x" "PFloat y"] by (simp add: struct_pack_def struct_items_HH)
  from 1 2 show ?thesis by simp
qed

section \<open>\<^verbatim>\<open>pack\<close> leaves its receiver unchanged\<close>

lemma store_list_insert_length [simp]:
  "length (store_list_insert p position x h) = length h"
  by (simp add: store_list_insert_def split: obj.splits)

lemma store_list_insert_other:
  "a \<noteq> p \<Longrightarrow> store_list_insert p position x h ! a = h ! a"
  by (simp add: store_list_insert_def split: obj.splits)

lemma store_list_insert_list:
  "p < length h \<Longrightarrow> h ! p = PyList l
     \<Longrightarrow> store_list_insert p position x h ! p = PyList (list_insert position x l)"
  by (simp add: store_list_insert_def)

lemma insert_loop:
  assumes "p < length h" and "h ! p = PyList l"
  shows "length (foldl (\<lambda>h' (len, position). store_list_insert p position (PInt (int len)) h') h pairs)
           = length h
       \<and> (\<forall>a. a \<noteq> p \<longrightarrow>
            foldl (\<lambda>h' (len, position). store_list_insert p position (PInt (int len)) h') h pairs ! a
              = h ! a)
       \<and> foldl (\<lambda>h' (len, position). store_list_insert p position (PInt (int len)) h') h pairs ! p
           = PyList (insert_lengths l pairs)"
  using assms
proof (induction pairs arbitrary: h l)
  case Nil
  then show ?case by (simp add: insert_lengths_def)
next
  case (Cons pr pairs)
  obtain len position where pr: "pr = (len, position)" by (cases pr)
  let ?h = "store_list_insert p position (PInt (int len)) h"
  have 1: "p < length ?h" using Cons.prems by simp
  have 2: "?h ! p = PyList (list_insert position (PInt (int len)) l)"
    using Cons.prems by (rule store_list_insert_list)
  from Cons.IH [OF 1 2] show ?case
    by (simp add: pr insert_lengths_def store_list_insert_other)
qed

text \<open>
  C10.  \<^verbatim>\<open>pack\<close> is read-only on its receiver.  Run on a store that holds the record
  \<open>r\<close> at the address \<open>self\<close>, it computes what \<^verbatim>\<open>pack\<close> computes from \<open>r\<close>
  alone, and in the store it leaves the record at \<open>self\<close> is \<open>r\<close>, with its
  subfunction and all its field values, as is every other object that the store held
  before: the only object written to is the argument list that \<^verbatim>\<open>pack\<close> creates.
\<close>

theorem pack_read_only:
  assumes "self < length h" and "h ! self = Record r"
  shows "fst (pack_store ops h self) = pack ops r
       \<and> snd (pack_store ops h self) ! self = Record r
       \<and> (\<forall>a < length h. snd (pack_store ops h self) ! a = h ! a)"
proof -
  let ?p = "length h"
  have loop: "length (foldl (\<lambda>h' (len, position). store_list_insert ?p position (PInt (int len)) h')
                          (h @ [PyList vals]) pairs) = Suc (length h)
       \<and> (\<forall>a. a \<noteq> ?p \<longrightarrow>
            foldl (\<lambda>h' (len, position). store_list_insert ?p position (PInt (int len)) h')
              (h @ [PyList vals]) pairs ! a = (h @ [PyList vals]) ! a)
       \<and> foldl (\<lambda>h' (len, position). store_list_insert ?p position (PInt (int len)) h')
              (h @ [PyList vals]) pairs ! ?p = PyList (insert_lengths vals pairs)" for vals pairs
    using insert_loop [of ?p "h @ [PyList vals]" vals pairs] by simp
  have old: "a < length h \<Longrightarrow> (h @ [x]) ! a = h ! a" for a and x :: "'a obj"
    by (simp add: nth_append)
  have frame: "\<forall>a < length h. snd (pack_store ops h self) ! a = h ! a"
    using assms loop
    by (auto simp: pack_store_def Let_def alloc_def nth_append split: sum.splits)
  have res: "fst (pack_store ops h self) = pack ops r"
    using assms loop
    by (auto simp: pack_store_def pack_def Let_def alloc_def store_list_def nth_append
        split: sum.splits)
  from frame assms res show ?thesis by simp
qed

text \<open>
  A record with a variable-length field, for which \<^verbatim>\<open>pack\<close> builds and updates its
  argument list: the record is unchanged and the list holds the length and the bytes.
\<close>

theorem pack_read_only_witness:
  "(0 :: nat) < length [Record (sub_variadic_record 0)]
   \<and> [Record (sub_variadic_record 0)] ! 0 = Record (sub_variadic_record 0)
   \<and> fst (pack_store no_floats [Record (sub_variadic_record 0)] 0) = Inr [0, 2, 1, 2]
   \<and> snd (pack_store no_floats [Record (sub_variadic_record 0)] 0) ! 0 = Record (sub_variadic_record 0)
   \<and> store_list (snd (pack_store no_floats [Record (sub_variadic_record 0)] 0)) 1
       = [PInt 2, PBytes [1, 2]]"
proof -
  have p: "pack no_floats (sub_variadic_record 0) = Inr [0, 2, 1, 2]"
    by code_simp
  have l: "store_list (snd (pack_store no_floats [Record (sub_variadic_record 0)] 0)) 1
       = [PInt 2, PBytes [1, 2]]"
    by code_simp
  from p l show ?thesis
    using pack_read_only [of 0 "[Record (sub_variadic_record 0)]" "sub_variadic_record 0" no_floats]
    by simp
qed

end
